theory Spec2Isabelle
  imports Complex_Main
begin

section \<open>The embeddings service of \<^verbatim>\<open>app/services/embeddings_service.py\<close>\<close>

text \<open>
  The module has one free function, \<^verbatim>\<open>limit_token_length\<close>, and one class,
  \<^verbatim>\<open>OpenAIEmbeddingsService\<close>, a singleton with a dictionary cache. Three libraries
  are used and are not part of the repository: the tokenizer (tiktoken), the embedding
  provider (langchain's \<^verbatim>\<open>OpenAIEmbeddings\<close>) and numpy. The first two are
  parameters of the model (the record \<open>env\<close>); of numpy only \<^verbatim>\<open>np.array\<close> and
  \<^verbatim>\<open>tolist\<close> are used, on values that are carried around and never computed with.
  Logging is left out: it changes nothing the functions return or store.
\<close>

subsection \<open>Values, exceptions, collaborators\<close>

text \<open>
  An embedding is a sequence of numbers in one of two Python representations: a plain
  \<^verbatim>\<open>list\<close> or a numpy \<^verbatim>\<open>ndarray\<close>. \<^verbatim>\<open>np.array(v)\<close> gives the array with the
  same components, \<^verbatim>\<open>a.tolist()\<close> the plain list with the same components.
\<close>

datatype pyval = PyList "real list" | NdArray "real list"

fun np_array :: "pyval \<Rightarrow> pyval" where
  "np_array (PyList xs) = NdArray xs"
| "np_array (NdArray xs) = NdArray xs"

fun tolist :: "pyval \<Rightarrow> pyval" where
  "tolist (PyList xs) = PyList xs"
| "tolist (NdArray xs) = PyList xs"

fun is_plain :: "pyval \<Rightarrow> bool" where
  "is_plain (PyList xs) = True"
| "is_plain (NdArray xs) = False"

text \<open>
  The exceptions that can leave the module. \<open>LibraryError\<close> stands for whatever a
  library raises (the tokenizer, the provider); \<open>EmbeddingComputationError msg cause\<close>
  is the module's own exception, raised \<^verbatim>\<open>from\<close> its cause; \<open>AttributeError\<close> is
  the read of an attribute that an object does not have.
\<close>

datatype exc =
    EnvironmentError string
  | LibraryError string
  | AttributeError string
  | EmbeddingComputationError string exc

text \<open>The provider object \<^verbatim>\<open>OpenAIEmbeddings(model=..., api_key=...)\<close>.\<close>

record provider =
  provider_model :: string
  provider_api_key :: string

text \<open>
  The calls made to the libraries, in the order they are made. The provider is a remote
  service, so what it answers may depend on the calls made before.
\<close>

datatype call =
    Encode string
  | Decode "nat list"
  | NewProvider string string
  | EmbedQuery provider string
  | EmbedDocuments provider "string list"

record env =
  encode :: "string \<Rightarrow> exc + nat list"
  decode :: "nat list \<Rightarrow> string"
  new_provider :: "string \<Rightarrow> string \<Rightarrow> exc option"
  embed_query :: "call list \<Rightarrow> provider \<Rightarrow> string \<Rightarrow> exc + pyval"
  embed_documents :: "call list \<Rightarrow> provider \<Rightarrow> string list \<Rightarrow> exc + pyval list"

subsection \<open>\<^verbatim>\<open>limit_token_length\<close>\<close>

text \<open>
  The Python slice \<^verbatim>\<open>xs[:m]\<close>: for \<open>m \<ge> 0\<close> the first \<open>m\<close> elements (all of them when
  there are fewer), for \<open>m < 0\<close> all but the last \<open>-m\<close> elements.
\<close>

definition slice_to :: "'a list \<Rightarrow> int \<Rightarrow> 'a list" where
  "slice_to xs m = (if 0 \<le> m then take (nat m) xs else take (nat (int (length xs) + m)) xs)"

text \<open>
  \<^verbatim>\<open>
  def limit_token_length(text: str, max_tokens: int = 2000) -> str:
      encoding = tiktoken.get_encoding("cl100k_base")
      tokens = encoding.encode(text)
      if len(tokens) > max_tokens:
          limited_tokens = tokens[:max_tokens]
          limited_text = encoding.decode(limited_tokens)
          return limited_text
      else:
          ...
      return text
  \<close>
  The result comes with the tokenizer calls made. An exception of the tokenizer is not
  caught.
\<close>

definition limit_token_length :: "env \<Rightarrow> string \<Rightarrow> int \<Rightarrow> (exc + string) \<times> call list" where
  "limit_token_length E text max_tokens =
     (case encode E text of
        Inl e \<Rightarrow> (Inl e, [Encode text])
      | Inr tokens \<Rightarrow>
          if int (length tokens) > max_tokens then
            (let limited_tokens = slice_to tokens max_tokens
             in (Inr (decode E limited_tokens), [Encode text, Decode limited_tokens]))
          else (Inr text, [Encode text]))"

text \<open>The token count of a text, when the tokenizer accepts it.\<close>

definition count_tokens :: "env \<Rightarrow> string \<Rightarrow> exc + nat" where
  "count_tokens E text = (case encode E text of Inl e \<Rightarrow> Inl e | Inr tokens \<Rightarrow> Inr (length tokens))"

subsection \<open>The service object and the process state\<close>

text \<open>
  An instance of \<^verbatim>\<open>OpenAIEmbeddingsService\<close> has up to three attributes; \<open>None\<close> is an
  attribute that has not been set (\<^verbatim>\<open>hasattr\<close> is false). Objects live in a heap and are
  referred to by address, so that two references can be compared for identity. The state
  of the process is the heap, the class attribute \<^verbatim>\<open>_instance\<close>, the credential
  \<^verbatim>\<open>settings.openai_api_key\<close> and the library calls made so far.
\<close>

record service_obj =
  embeddings_model :: "provider option"
  cache :: "(string \<rightharpoonup> pyval) option"
  initialized :: "bool option"

definition bare_obj :: service_obj where
  "bare_obj = \<lparr>embeddings_model = None, cache = None, initialized = None\<rparr>"

type_synonym addr = nat

record state =
  heap :: "addr \<Rightarrow> service_obj"
  next_addr :: addr
  cls_instance :: "addr option"
  openai_api_key :: "string option"
  calls :: "call list"

text \<open>\<^verbatim>\<open>not openai_api_key\<close>: the setting is \<^verbatim>\<open>None\<close> or the empty string.\<close>

definition key_missing :: "string option \<Rightarrow> bool" where
  "key_missing k = (case k of None \<Rightarrow> True | Some s \<Rightarrow> s = [])"

text \<open>
  \<^verbatim>\<open>
  def __init__(self, model="text-embedding-3-small") -> None:
      if not hasattr(self, 'initialized'):
          openai_api_key = settings.openai_api_key
          if not openai_api_key:
              raise EnvironmentError("OPENAI_API_KEY environment variable is not set!")
          try:
              self.embeddings_model = OpenAIEmbeddings(model=model, api_key=openai_api_key)
          except Exception as embeddings_excep:
              raise embeddings_excep
      self.cache = {}
      self.initialized = True
  \<close>
\<close>

definition reset_cache :: "state \<Rightarrow> addr \<Rightarrow> state" where
  "reset_cache s self =
     s\<lparr>heap := (heap s)(self := (heap s self)\<lparr>cache := Some Map.empty, initialized := Some True\<rparr>)\<rparr>"

definition service_init :: "env \<Rightarrow> state \<Rightarrow> addr \<Rightarrow> string \<Rightarrow> (exc + unit) \<times> state" where
  "service_init E s self model =
     (if initialized (heap s self) = None then
        (if key_missing (openai_api_key s) then
           (Inl (EnvironmentError ''OPENAI_API_KEY environment variable is not set!''), s)
         else
           (let key = the (openai_api_key s);
                s1 = s\<lparr>calls := calls s @ [NewProvider model key]\<rparr>
            in case new_provider E model key of
                 Some e \<Rightarrow> (Inl e, s1)
               | None \<Rightarrow>
                   (let p = \<lparr>provider_model = model, provider_api_key = key\<rparr>;
                        s2 = s1\<lparr>heap := (heap s1)(self := (heap s1 self)\<lparr>embeddings_model := Some p\<rparr>)\<rparr>
                    in (Inr (), reset_cache s2 self))))
      else (Inr (), reset_cache s self))"

text \<open>
  \<^verbatim>\<open>
  def __new__(cls, model="text-embedding-3-small"):
      if cls._instance is None:
          cls._instance = super(OpenAIEmbeddingsService, cls).__new__(cls)
          cls._instance.__init__(model=model)
      return cls._instance
  \<close>
  The new object is allocated at the next free address, without attributes.
\<close>

definition service_new :: "env \<Rightarrow> state \<Rightarrow> string \<Rightarrow> (exc + addr) \<times> state" where
  "service_new E s model =
     (case cls_instance s of
        None \<Rightarrow>
          (let a = next_addr s;
               s1 = s\<lparr>heap := (heap s)(a := bare_obj), next_addr := Suc a, cls_instance := Some a\<rparr>
           in case service_init E s1 a model of
                (Inl e, s2) \<Rightarrow> (Inl e, s2)
              | (Inr u, s2) \<Rightarrow> (Inr a, s2))
      | Some a \<Rightarrow> (Inr a, s))"

text \<open>
  The expression \<^verbatim>\<open>OpenAIEmbeddingsService(model)\<close>. Python evaluates it as
  \<^verbatim>\<open>type.__call__\<close>: it calls \<^verbatim>\<open>__new__\<close> and then, the result being an instance of
  the class, \<^verbatim>\<open>__init__\<close> on the result with the same arguments, and returns the result.
\<close>

definition OpenAIEmbeddingsService :: "env \<Rightarrow> state \<Rightarrow> string \<Rightarrow> (exc + addr) \<times> state" where
  "OpenAIEmbeddingsService E s model =
     (case service_new E s model of
        (Inl e, s1) \<Rightarrow> (Inl e, s1)
      | (Inr a, s1) \<Rightarrow>
          (case service_init E s1 a model of
             (Inl e, s2) \<Rightarrow> (Inl e, s2)
           | (Inr u, s2) \<Rightarrow> (Inr a, s2)))"

subsection \<open>The methods\<close>

text \<open>
  \<^verbatim>\<open>
  def compute_embedding(self, text: str) -> list:
      if text in self.cache:
          return self.cache[text]
      text = limit_token_length(text)
      try:
          text_embedding = self.embeddings_model.embed_query(text)
      except Exception as embedding_excep:
          raise EmbeddingComputationError(
              f"Failed to compute embedding for text: {text}") from embedding_excep
      self.cache[text] = text_embedding
      return np.array(self.cache[text]).tolist()
  \<close>
\<close>

definition compute_embedding :: "env \<Rightarrow> state \<Rightarrow> addr \<Rightarrow> string \<Rightarrow> (exc + pyval) \<times> state" where
  "compute_embedding E s self text =
     (case cache (heap s self) of
        None \<Rightarrow> (Inl (AttributeError ''cache''), s)
      | Some c \<Rightarrow>
          (case c text of
             Some v \<Rightarrow> (Inr v, s)
           | None \<Rightarrow>
               (case limit_token_length E text 2000 of
                  (Inl e, tcalls) \<Rightarrow> (Inl e, s\<lparr>calls := calls s @ tcalls\<rparr>)
                | (Inr text', tcalls) \<Rightarrow>
                    (let s1 = s\<lparr>calls := calls s @ tcalls\<rparr>;
                         msg = ''Failed to compute embedding for text: '' @ text'
                     in case embeddings_model (heap s1 self) of
                          None \<Rightarrow>
                            (Inl (EmbeddingComputationError msg (AttributeError ''embeddings_model'')), s1)
                        | Some p \<Rightarrow>
                            (let s2 = s1\<lparr>calls := calls s1 @ [EmbedQuery p text']\<rparr>
                             in case embed_query E (calls s1) p text' of
                                  Inl e \<Rightarrow> (Inl (EmbeddingComputationError msg e), s2)
                                | Inr text_embedding \<Rightarrow>
                                    (Inr (tolist (np_array text_embedding)),
                                     s2\<lparr>heap := (heap s2)
                                        (self := (heap s2 self)\<lparr>cache := Some (c(text' \<mapsto> text_embedding))\<rparr>)\<rparr>))))))"

text \<open>
  \<^verbatim>\<open>
  def compute_batch_embeddings(self, texts: List[str]) -> List[np.ndarray]:
      try:
          return [np.array(embedding)
                  for embedding in self.embeddings_model.embed_documents(texts)]
      except Exception as batch_embedding_excep:
          raise EmbeddingComputationError(
              "Failed to compute batch embeddings") from batch_embedding_excep
  \<close>
\<close>

definition compute_batch_embeddings ::
    "env \<Rightarrow> state \<Rightarrow> addr \<Rightarrow> string list \<Rightarrow> (exc + pyval list) \<times> state" where
  "compute_batch_embeddings E s self texts =
     (let msg = ''Failed to compute batch embeddings''
      in case embeddings_model (heap s self) of
           None \<Rightarrow> (Inl (EmbeddingComputationError msg (AttributeError ''embeddings_model'')), s)
         | Some p \<Rightarrow>
             (let s1 = s\<lparr>calls := calls s @ [EmbedDocuments p texts]\<rparr>
              in case embed_documents E (calls s) p texts of
                   Inl e \<Rightarrow> (Inl (EmbeddingComputationError msg e), s1)
                 | Inr embeddings \<Rightarrow> (Inr (map np_array embeddings), s1)))"

text \<open>
  \<^verbatim>\<open>
  def clear_cache(self) -> None:
      self.cache.clear()
  \<close>
\<close>

definition clear_cache :: "state \<Rightarrow> addr \<Rightarrow> (exc + unit) \<times> state" where
  "clear_cache s self =
     (case cache (heap s self) of
        None \<Rightarrow> (Inl (AttributeError ''cache''), s)
      | Some c \<Rightarrow> (Inr (), s\<lparr>heap := (heap s)(self := (heap s self)\<lparr>cache := Some Map.empty\<rparr>)\<rparr>))"

subsection \<open>Callers\<close>

text \<open>
  A caller that holds the reference \<open>a\<close> to the service may, in any order, evaluate the
  constructor expression again, call the three methods on \<open>a\<close>, and change the
  credential in the settings. \<open>client_run\<close> is the state after such a sequence; what
  the calls return is dropped.
\<close>

datatype client_op =
    Call_constructor string
  | Call_compute_embedding string
  | Call_compute_batch_embeddings "string list"
  | Call_clear_cache
  | Set_api_key "string option"

fun client_step :: "env \<Rightarrow> addr \<Rightarrow> state \<Rightarrow> client_op \<Rightarrow> state" where
  "client_step E a s (Call_constructor model) = snd (OpenAIEmbeddingsService E s model)"
| "client_step E a s (Call_compute_embedding text) = snd (compute_embedding E s a text)"
| "client_step E a s (Call_compute_batch_embeddings texts) =
     snd (compute_batch_embeddings E s a texts)"
| "client_step E a s Call_clear_cache = snd (clear_cache s a)"
| "client_step E a s (Set_api_key k) = s\<lparr>openai_api_key := k\<rparr>"

definition client_run :: "env \<Rightarrow> addr \<Rightarrow> state \<Rightarrow> client_op list \<Rightarrow> state" where
  "client_run E a s ops = foldl (client_step E a) s ops"

subsection \<open>Invariants and contracts of the libraries\<close>

text \<open>
  \<open>installed a pm s\<close>: the class attribute refers to \<open>a\<close>, the object at \<open>a\<close> has been
  initialized, and its provider attribute is \<open>pm\<close>. \<open>cache_plain a s\<close>: every vector in
  the cache of \<open>a\<close> is a plain list.
\<close>

definition installed :: "addr \<Rightarrow> provider option \<Rightarrow> state \<Rightarrow> bool" where
  "installed a pm s \<longleftrightarrow>
     cls_instance s = Some a \<and> initialized (heap s a) \<noteq> None \<and> embeddings_model (heap s a) = pm"

definition cache_plain :: "addr \<Rightarrow> state \<Rightarrow> bool" where
  "cache_plain a s \<longleftrightarrow>
     (case cache (heap s a) of None \<Rightarrow> True | Some c \<Rightarrow> \<forall>v \<in> ran c. is_plain v)"

text \<open>
  What langchain documents of the provider: \<^verbatim>\<open>embed_query\<close> returns a list of floats,
  \<^verbatim>\<open>embed_documents\<close> returns one embedding for each text.
\<close>

definition plain_provider :: "env \<Rightarrow> bool" where
  "plain_provider E \<longleftrightarrow> (\<forall>log p t v. embed_query E log p t = Inr v \<longrightarrow> is_plain v)"

definition one_vector_per_text :: "env \<Rightarrow> bool" where
  "one_vector_per_text E \<longleftrightarrow>
     (\<forall>log p texts raw. embed_documents E log p texts = Inr raw \<longrightarrow> length raw = length texts)"

subsection \<open>Stand-ins for the libraries, and some states\<close>

text \<open>
  \<open>demo_env\<close>: a tokenizer with one token for each character (its code), and a provider
  that always answers, with the length of the text as the only component of the vector.
  \<open>failing_env\<close>: the same, but \<^verbatim>\<open>embed_query\<close> raises. \<open>ndarray_env\<close>: the
  same, but \<^verbatim>\<open>embed_query\<close> answers with a numpy array. \<open>replacing_env\<close>: the same
  tokenizer over bytes, but decoding replaces a trailing UTF-8 lead byte (a character cut
  in the middle) by the three bytes of the replacement character U+FFFD, as a decoder
  with \<^verbatim>\<open>errors="replace"\<close> does.
\<close>

definition demo_env :: env where
  "demo_env =
     \<lparr>encode = (\<lambda>t. Inr (map of_char t)),
      decode = map char_of,
      new_provider = (\<lambda>model key. None),
      embed_query = (\<lambda>log p t. Inr (PyList [real (length t)])),
      embed_documents = (\<lambda>log p ts. Inr (map (\<lambda>t. PyList [real (length t)]) ts))\<rparr>"

definition failing_env :: env where
  "failing_env = demo_env\<lparr>embed_query := (\<lambda>log p t. Inl (LibraryError ''connection refused''))\<rparr>"



text \<open>
  \<open>demo_state\<close>: a process in which the class has not been instantiated and the
  credential is set; \<open>nokey_state\<close>: the same without the credential; \<open>ready_state\<close>:
  after the first construction; \<open>cached_state\<close>: after that and one embedding.
\<close>

definition demo_state :: state where
  "demo_state =
     \<lparr>heap = (\<lambda>a. bare_obj), next_addr = 0, cls_instance = None,
      openai_api_key = Some ''sk-test'', calls = []\<rparr>"

definition nokey_state :: state where
  "nokey_state = demo_state\<lparr>openai_api_key := None\<rparr>"

definition demo_provider :: provider where
  "demo_provider = \<lparr>provider_model = ''text-embedding-3-small'', provider_api_key = ''sk-test''\<rparr>"

definition ready_state :: state where
  "ready_state = snd (OpenAIEmbeddingsService demo_env demo_state ''text-embedding-3-small'')"

definition cached_state :: state where
  "cached_state = snd (compute_embedding demo_env ready_state 0 ''hello'')"

section \<open>Properties\<close>

subsection \<open>The constructor\<close>

lemma init_skip:
  "initialized (heap s a) \<noteq> None \<Longrightarrow> service_init E s a model = (Inr (), reset_cache s a)"
  by (auto simp: service_init_def)

lemma init_ok_facts:
  assumes "service_init E s a model = (Inr u, s1)"
  shows "initialized (heap s1 a) = Some True" "cache (heap s1 a) = Some Map.empty"
    "cls_instance s1 = cls_instance s"
  using assms
  by (auto simp: service_init_def reset_cache_def Let_def split: if_splits option.splits)

lemma new_ok_facts:
  assumes "service_new E s model = (Inr a, s1)"
  shows "cls_instance s1 = Some a"
  using assms init_ok_facts(3)[of E _ _ model]
  by (auto simp: service_new_def Let_def split: option.splits sum.splits prod.splits)

lemma constructor_ok_facts:
  assumes "OpenAIEmbeddingsService E s model = (Inr a, s1)"
  shows "cls_instance s1 = Some a" "initialized (heap s1 a) = Some True"
    "cache (heap s1 a) = Some Map.empty"
proof -
  from assms obtain s0 u where n: "service_new E s model = (Inr a, s0)"
    and i: "service_init E s0 a model = (Inr u, s1)"
    by (auto simp: OpenAIEmbeddingsService_def split: sum.splits prod.splits)
  show "cls_instance s1 = Some a" using new_ok_facts[OF n] init_ok_facts(3)[OF i] by simp
  show "initialized (heap s1 a) = Some True" using init_ok_facts(1)[OF i] .
  show "cache (heap s1 a) = Some Map.empty" using init_ok_facts(2)[OF i] .
qed

lemma constructor_installed:
  assumes "installed a pm s"
  shows "OpenAIEmbeddingsService E s model = (Inr a, reset_cache s a)"
  using assms by (simp add: installed_def OpenAIEmbeddingsService_def service_new_def init_skip)

lemma installed_reset: "installed a pm s \<Longrightarrow> installed a pm (reset_cache s a)"
  by (simp add: installed_def reset_cache_def)

lemma first_constructor_model:
  assumes "cls_instance s = None" "OpenAIEmbeddingsService E s model = (Inr a, s1)"
  shows "\<exists>key. openai_api_key s = Some key \<and>
           embeddings_model (heap s1 a) =
             Some \<lparr>provider_model = model, provider_api_key = key\<rparr>"
  using assms
  by (auto simp: OpenAIEmbeddingsService_def service_new_def service_init_def bare_obj_def
      reset_cache_def key_missing_def Let_def split: if_splits option.splits)

subsection \<open>What \<^verbatim>\<open>compute_embedding\<close> does on each path\<close>

lemma compute_embedding_hit:
  assumes "cache (heap s self) = Some c" "c t = Some v"
  shows "compute_embedding E s self t = (Inr v, s)"
  using assms by (simp add: compute_embedding_def)

lemma compute_embedding_miss_raise:
  assumes "cache (heap s self) = Some c" "c t = None"
    "limit_token_length E t 2000 = (Inr t', tcalls)"
    "embeddings_model (heap s self) = Some p"
    "embed_query E (calls s @ tcalls) p t' = Inl e"
  shows "compute_embedding E s self t =
    (Inl (EmbeddingComputationError (''Failed to compute embedding for text: '' @ t') e),
     s\<lparr>calls := calls s @ tcalls @ [EmbedQuery p t']\<rparr>)"
  using assms by (simp add: compute_embedding_def Let_def)

lemma compute_embedding_miss_store:
  assumes "cache (heap s self) = Some c" "c t = None"
    "limit_token_length E t 2000 = (Inr t', tcalls)"
    "embeddings_model (heap s self) = Some p"
    "embed_query E (calls s @ tcalls) p t' = Inr v"
  shows "compute_embedding E s self t =
    (Inr (tolist (np_array v)),
     s\<lparr>calls := calls s @ tcalls @ [EmbedQuery p t'],
       heap := (heap s)(self := (heap s self)\<lparr>cache := Some (c(t' \<mapsto> v))\<rparr>)\<rparr>)"
  using assms by (simp add: compute_embedding_def Let_def)

lemma compute_embedding_miss_calls:
  assumes "cache (heap s self) = Some c" "c t = None"
    "limit_token_length E t 2000 = (Inr t', tcalls)"
    "embeddings_model (heap s self) = Some p"
  shows "calls (snd (compute_embedding E s self t)) = calls s @ tcalls @ [EmbedQuery p t']"
  using assms by (simp add: compute_embedding_def Let_def split: sum.splits)

lemma compute_embedding_outcome:
  "(\<exists>cs. snd (compute_embedding E s a t) = s\<lparr>calls := calls s @ cs\<rparr>) \<or>
   (\<exists>cs c k v p log. cache (heap s a) = Some c \<and> embed_query E log p k = Inr v \<and>
      fst (compute_embedding E s a t) = Inr (tolist (np_array v)) \<and>
      snd (compute_embedding E s a t) =
        s\<lparr>calls := calls s @ cs,
          heap := (heap s)(a := (heap s a)\<lparr>cache := Some (c(k \<mapsto> v))\<rparr>)\<rparr>)"
proof (cases "cache (heap s a)")
  case None
  then have "snd (compute_embedding E s a t) = s\<lparr>calls := calls s @ []\<rparr>"
    by (simp add: compute_embedding_def)
  then show ?thesis by blast
next
  case (Some c)
  show ?thesis
  proof (cases "c t")
    case (Some v)
    with \<open>cache (heap s a) = Some c\<close>
    have "snd (compute_embedding E s a t) = s\<lparr>calls := calls s @ []\<rparr>"
      by (simp add: compute_embedding_def)
    then show ?thesis by blast
  next
    case None
    obtain r tcalls where l: "limit_token_length E t 2000 = (r, tcalls)"
      by (cases "limit_token_length E t 2000")
    show ?thesis
    proof (cases r)
      case (Inl e)
      with l None \<open>cache (heap s a) = Some c\<close>
      have "snd (compute_embedding E s a t) = s\<lparr>calls := calls s @ tcalls\<rparr>"
        by (simp add: compute_embedding_def)
      then show ?thesis by blast
    next
      case (Inr t')
      show ?thesis
      proof (cases "embeddings_model (heap s a)")
        case Nm: None
        with l None Inr \<open>cache (heap s a) = Some c\<close>
        have "snd (compute_embedding E s a t) = s\<lparr>calls := calls s @ tcalls\<rparr>"
          by (simp add: compute_embedding_def Let_def)
        then show ?thesis by blast
      next
        case (Some p)
        show ?thesis
        proof (cases "embed_query E (calls s @ tcalls) p t'")
          case El: (Inl e)
          with l None Inr Some \<open>cache (heap s a) = Some c\<close>
          have "snd (compute_embedding E s a t) =
                  s\<lparr>calls := calls s @ (tcalls @ [EmbedQuery p t'])\<rparr>"
            by (simp add: compute_embedding_def Let_def)
          then show ?thesis by blast
        next
          case Er: (Inr v)
          with l None Inr Some \<open>cache (heap s a) = Some c\<close>
          have "fst (compute_embedding E s a t) = Inr (tolist (np_array v))"
            and "snd (compute_embedding E s a t) =
                  s\<lparr>calls := calls s @ (tcalls @ [EmbedQuery p t']),
                    heap := (heap s)(a := (heap s a)\<lparr>cache := Some (c(t' \<mapsto> v))\<rparr>)\<rparr>"
            by (simp_all add: compute_embedding_def Let_def)
          with Er \<open>cache (heap s a) = Some c\<close> show ?thesis by blast
        qed
      qed
    qed
  qed
qed

lemma installed_compute_embedding:
  "installed a pm s \<Longrightarrow> installed a pm (snd (compute_embedding E s a t))"
  using compute_embedding_outcome[of E s a t]
  by (auto simp: installed_def)

lemma installed_batch:
  "installed a pm s \<Longrightarrow> installed a pm (snd (compute_batch_embeddings E s a texts))"
  by (simp add: installed_def compute_batch_embeddings_def Let_def
      split: option.splits sum.splits)

lemma installed_clear: "installed a pm s \<Longrightarrow> installed a pm (snd (clear_cache s a))"
  by (simp add: installed_def clear_cache_def split: option.splits)

lemma installed_step: "installed a pm s \<Longrightarrow> installed a pm (client_step E a s cop)"
proof (cases cop)
  case (Call_constructor model)
  assume "installed a pm s"
  with Call_constructor show ?thesis by (simp add: constructor_installed installed_reset)
next
  case (Call_compute_embedding t)
  assume "installed a pm s"
  with Call_compute_embedding show ?thesis by (simp add: installed_compute_embedding)
next
  case (Call_compute_batch_embeddings texts)
  assume "installed a pm s"
  with Call_compute_batch_embeddings show ?thesis by (simp add: installed_batch)
next
  case Call_clear_cache
  assume "installed a pm s"
  with Call_clear_cache show ?thesis by (simp add: installed_clear)
next
  case (Set_api_key k)
  assume "installed a pm s"
  with Set_api_key show ?thesis by (simp add: installed_def)
qed

lemma installed_run: "installed a pm s \<Longrightarrow> installed a pm (client_run E a s ops)"
  unfolding client_run_def
  by (induction ops arbitrary: s) (simp_all add: installed_step)

lemma plain_reset: "cache_plain a (reset_cache s a)"
  by (simp add: cache_plain_def reset_cache_def)

lemma ran_upd_plain:
  fixes c :: "string \<rightharpoonup> pyval"
  assumes "\<forall>v \<in> ran c. is_plain v" "is_plain w"
  shows "\<forall>v \<in> ran (c(k \<mapsto> w)). is_plain v"
  using assms by (auto simp: ran_def split: if_splits)

lemma plain_compute_embedding:
  assumes "plain_provider E" "cache_plain a s"
  shows "cache_plain a (snd (compute_embedding E s a t))"
  using compute_embedding_outcome[of E s a t]
proof (elim disjE exE conjE)
  fix cs
  assume "snd (compute_embedding E s a t) = s\<lparr>calls := calls s @ cs\<rparr>"
  with assms(2) show ?thesis by (simp add: cache_plain_def)
next
  fix cs c k v p log
  assume c: "cache (heap s a) = Some c" and q: "embed_query E log p k = Inr v"
    and s': "snd (compute_embedding E s a t) =
        s\<lparr>calls := calls s @ cs,
          heap := (heap s)(a := (heap s a)\<lparr>cache := Some (c(k \<mapsto> v))\<rparr>)\<rparr>"
  from assms(1) q have "is_plain v" unfolding plain_provider_def by blast
  moreover from assms(2) c have "\<forall>v \<in> ran c. is_plain v" by (simp add: cache_plain_def)
  ultimately have "\<forall>x \<in> ran (c(k \<mapsto> v)). is_plain x" by (rule ran_upd_plain[rotated])
  with s' show ?thesis by (simp add: cache_plain_def)
qed

lemma plain_batch:
  "cache_plain a s \<Longrightarrow> cache_plain a (snd (compute_batch_embeddings E s a texts))"
  by (simp add: cache_plain_def compute_batch_embeddings_def Let_def
      split: option.splits sum.splits)

lemma plain_clear: "cache_plain a s \<Longrightarrow> cache_plain a (snd (clear_cache s a))"
  by (simp add: cache_plain_def clear_cache_def split: option.splits)

lemma plain_step:
  assumes "plain_provider E" "installed a pm s" "cache_plain a s"
  shows "cache_plain a (client_step E a s cop)"
proof (cases cop)
  case (Call_constructor model)
  then show ?thesis using assms(2) by (simp add: constructor_installed plain_reset)
next
  case (Call_compute_embedding t)
  then show ?thesis using assms by (simp add: plain_compute_embedding)
next
  case (Call_compute_batch_embeddings texts)
  then show ?thesis using assms by (simp add: plain_batch)
next
  case Call_clear_cache
  then show ?thesis using assms by (simp add: plain_clear)
next
  case (Set_api_key k)
  then show ?thesis using assms(3) by (simp add: cache_plain_def)
qed

lemma plain_run:
  assumes "plain_provider E"
  shows "installed a pm s \<Longrightarrow> cache_plain a s \<Longrightarrow> cache_plain a (client_run E a s ops)"
  unfolding client_run_def
proof (induction ops arbitrary: s)
  case Nil
  then show ?case by simp
next
  case (Cons cop ops)
  show ?case
    using Cons.IH[OF installed_step[OF Cons.prems(1)] plain_step[OF assms Cons.prems]]
    by simp
qed

lemma plain_tolist: "is_plain (tolist (np_array w))"
  by (cases w) simp_all

lemma compute_embedding_plain:
  assumes "plain_provider E" "cache_plain a s" "fst (compute_embedding E s a t) = Inr v"
  shows "is_plain v"
proof (cases "cache (heap s a)")
  case None
  with assms(3) show ?thesis by (simp add: compute_embedding_def)
next
  case (Some c)
  show ?thesis
  proof (cases "c t")
    case Sv: (Some w)
    with Some assms(3) have "v = w" by (simp add: compute_embedding_def)
    moreover from assms(2) Some Sv have "is_plain w"
      by (auto simp: cache_plain_def ran_def)
    ultimately show ?thesis by simp
  next
    case None
    with Some assms(3) show ?thesis
      by (auto simp: compute_embedding_def Let_def plain_tolist
          split: option.splits sum.splits prod.splits)
  qed
qed

subsection \<open>The stand-ins evaluated\<close>

lemma ready_state_simps:
  "cls_instance ready_state = Some 0"
  "heap ready_state 0 =
     \<lparr>embeddings_model = Some demo_provider, cache = Some Map.empty, initialized = Some True\<rparr>"
  "calls ready_state = [NewProvider ''text-embedding-3-small'' ''sk-test'']"
  "openai_api_key ready_state = Some ''sk-test''"
  by (simp_all add: ready_state_def OpenAIEmbeddingsService_def service_new_def service_init_def
      reset_cache_def demo_env_def demo_state_def demo_provider_def key_missing_def bare_obj_def
      Let_def)

lemma ready_constructor:
  "fst (OpenAIEmbeddingsService demo_env demo_state ''text-embedding-3-small'') = Inr 0"
  by (simp add: OpenAIEmbeddingsService_def service_new_def service_init_def
      reset_cache_def demo_env_def demo_state_def key_missing_def bare_obj_def Let_def)

lemma char_of_97: "char_of (97::nat) = CHR ''a''"
  by code_simp

lemma demo_limit_long:
  "limit_token_length demo_env (replicate 2001 CHR ''a'') 2000 =
     (Inr (replicate 2000 CHR ''a''), [Encode (replicate 2001 CHR ''a''), Decode (replicate 2000 97)])"
  by (simp add: limit_token_length_def slice_to_def demo_env_def Let_def char_of_97)

lemma cached_state_simps:
  "cls_instance cached_state = Some 0"
  "heap cached_state 0 =
     \<lparr>embeddings_model = Some demo_provider, cache = Some [''hello'' \<mapsto> PyList [5]],
      initialized = Some True\<rparr>"
  "calls cached_state =
     [NewProvider ''text-embedding-3-small'' ''sk-test'', Encode ''hello'',
      EmbedQuery demo_provider ''hello'']"
  by (simp_all add: cached_state_def compute_embedding_def ready_state_simps
      limit_token_length_def demo_env_def Let_def)

lemma failing_limit_short:
  "length t \<le> 2000 \<Longrightarrow> limit_token_length failing_env t 2000 = (Inr t, [Encode t])"
  by (simp add: limit_token_length_def failing_env_def demo_env_def)

lemma demo_encode_abc: "encode demo_env ''abc'' = Inr [97, 98, 99]"
  by (simp add: demo_env_def)

lemma demo_decode_ab: "decode demo_env [97, 98] = ''ab''"
  by code_simp

section \<open>The claims\<close>

text \<open>
  Claim C1. When the cache lookup of \<open>text\<close> misses and the provider call succeeds,
  \<^verbatim>\<open>compute_embedding\<close> stores the vector under the truncated string \<open>text'\<close>, the
  result of \<^verbatim>\<open>limit_token_length\<close>, and not under \<open>text\<close>: when the two differ,
  \<open>text\<close> is still not a key of the cache, and a second call with the same \<open>text\<close>
  calls the tokenizer and the provider again.
\<close>

theorem cache_key_is_truncated_text:
  assumes "cache (heap s self) = Some c" and "c text = None"
    and "limit_token_length E text 2000 = (Inr text', tcalls)"
    and "embeddings_model (heap s self) = Some p"
    and "embed_query E (calls s @ tcalls) p text' = Inr v"
    and "s' = snd (compute_embedding E s self text)"
  shows "fst (compute_embedding E s self text) = Inr (tolist (np_array v)) \<and>
         cache (heap s' self) = Some (c(text' \<mapsto> v)) \<and>
         (text' \<noteq> text \<longrightarrow>
            (c(text' \<mapsto> v)) text = None \<and>
            calls (snd (compute_embedding E s' self text)) =
              calls s' @ tcalls @ [EmbedQuery p text'])"
proof -
  have r: "compute_embedding E s self text =
    (Inr (tolist (np_array v)),
     s\<lparr>calls := calls s @ tcalls @ [EmbedQuery p text'],
       heap := (heap s)(self := (heap s self)\<lparr>cache := Some (c(text' \<mapsto> v))\<rparr>)\<rparr>)"
    using assms(1-5) by (rule compute_embedding_miss_store)
  have c': "cache (heap s' self) = Some (c(text' \<mapsto> v))"
    and m': "embeddings_model (heap s' self) = Some p"
    using r assms(4,6) by simp_all
  have again: "calls (snd (compute_embedding E s' self text)) =
        calls s' @ tcalls @ [EmbedQuery p text']" if "text' \<noteq> text"
  proof -
    from that assms(2) have "(c(text' \<mapsto> v)) text = None" by simp
    with c' show ?thesis using assms(3) m' by (rule compute_embedding_miss_calls)
  qed
  show ?thesis using r c' again assms(2) by simp
qed

theorem cache_key_is_truncated_text_witness:
  "limit_token_length demo_env (replicate 2001 CHR ''a'') 2000 =
     (Inr (replicate 2000 CHR ''a''),
      [Encode (replicate 2001 CHR ''a''), Decode (replicate 2000 97)]) \<and>
   replicate 2000 CHR ''a'' \<noteq> replicate 2001 CHR ''a'' \<and>
   fst (compute_embedding demo_env ready_state 0 (replicate 2001 CHR ''a'')) = Inr (PyList [2000]) \<and>
   cache (heap (snd (compute_embedding demo_env ready_state 0 (replicate 2001 CHR ''a''))) 0) =
     Some [replicate 2000 CHR ''a'' \<mapsto> PyList [2000]] \<and>
   calls (snd (compute_embedding demo_env
       (snd (compute_embedding demo_env ready_state 0 (replicate 2001 CHR ''a''))) 0
       (replicate 2001 CHR ''a''))) =
     calls (snd (compute_embedding demo_env ready_state 0 (replicate 2001 CHR ''a''))) @
     [Encode (replicate 2001 CHR ''a''), Decode (replicate 2000 97),
      EmbedQuery demo_provider (replicate 2000 CHR ''a'')]"
proof -
  have h1: "cache (heap ready_state 0) = Some Map.empty"
    and h4: "embeddings_model (heap ready_state 0) = Some demo_provider"
    by (simp_all add: ready_state_simps)
  have h2: "(Map.empty :: string \<rightharpoonup> pyval) (replicate 2001 CHR ''a'') = None" by simp
  have h5: "embed_query demo_env
      (calls ready_state @ [Encode (replicate 2001 CHR ''a''), Decode (replicate 2000 97)])
      demo_provider (replicate 2000 CHR ''a'') = Inr (PyList [2000])"
    by (simp add: demo_env_def)
  have ne: "replicate 2000 CHR ''a'' \<noteq> replicate 2001 CHR ''a''" by simp
  show ?thesis
    using cache_key_is_truncated_text[OF h1 h2 demo_limit_long h4 h5 refl] ne demo_limit_long
    by simp
qed

text \<open>
  Claim C2, as amended. When the class has no instance and the credential is missing, the
  constructor raises \<^verbatim>\<open>EnvironmentError\<close>; the class attribute \<^verbatim>\<open>_instance\<close> is
  then set, to a new object without attributes (the claim says that no singleton is left
  installed). A following construction with a credential and a provider that can be
  created returns that object, with provider, empty cache and \<^verbatim>\<open>initialized\<close> set.
\<close>

theorem construction_without_credential:
  assumes "cls_instance s = None" and "key_missing (openai_api_key s)"
    and "s1 = snd (OpenAIEmbeddingsService E s model)"
    and "key \<noteq> []" and "new_provider E model2 key = None"
    and "s2 = snd (OpenAIEmbeddingsService E (s1\<lparr>openai_api_key := Some key\<rparr>) model2)"
  shows "fst (OpenAIEmbeddingsService E s model) =
           Inl (EnvironmentError ''OPENAI_API_KEY environment variable is not set!'') \<and>
         cls_instance s1 = Some (next_addr s) \<and>
         heap s1 (next_addr s) = bare_obj \<and>
         fst (OpenAIEmbeddingsService E (s1\<lparr>openai_api_key := Some key\<rparr>) model2) =
           Inr (next_addr s) \<and>
         heap s2 (next_addr s) =
           \<lparr>embeddings_model = Some \<lparr>provider_model = model2, provider_api_key = key\<rparr>,
            cache = Some Map.empty, initialized = Some True\<rparr>"
proof -
  let ?a = "next_addr s"
  let ?s0 = "s\<lparr>heap := (heap s)(?a := bare_obj), next_addr := Suc ?a, cls_instance := Some ?a\<rparr>"
  have first: "OpenAIEmbeddingsService E s model =
      (Inl (EnvironmentError ''OPENAI_API_KEY environment variable is not set!''), ?s0)"
    using assms(1,2)
    by (simp add: OpenAIEmbeddingsService_def service_new_def service_init_def bare_obj_def Let_def)
  then have s1: "s1 = ?s0" using assms(3) by simp
  have second: "OpenAIEmbeddingsService E (?s0\<lparr>openai_api_key := Some key\<rparr>) model2 =
      (Inr ?a,
       reset_cache (?s0\<lparr>openai_api_key := Some key,
          calls := calls s @ [NewProvider model2 key],
          heap := (heap ?s0)(?a := bare_obj\<lparr>embeddings_model :=
             Some \<lparr>provider_model = model2, provider_api_key = key\<rparr>\<rparr>)\<rparr>) ?a)"
    using assms(4,5)
    by (simp add: OpenAIEmbeddingsService_def service_new_def service_init_def bare_obj_def
        key_missing_def reset_cache_def Let_def)
  show ?thesis
    using first second s1 assms(6) by (simp add: reset_cache_def bare_obj_def)
qed

theorem construction_without_credential_witness:
  "fst (OpenAIEmbeddingsService demo_env nokey_state ''text-embedding-3-small'') =
     Inl (EnvironmentError ''OPENAI_API_KEY environment variable is not set!'') \<and>
   fst (OpenAIEmbeddingsService demo_env
     ((snd (OpenAIEmbeddingsService demo_env nokey_state ''text-embedding-3-small''))
        \<lparr>openai_api_key := Some ''sk-test''\<rparr>) ''text-embedding-3-large'') = Inr 0 \<and>
   heap (snd (OpenAIEmbeddingsService demo_env
     ((snd (OpenAIEmbeddingsService demo_env nokey_state ''text-embedding-3-small''))
        \<lparr>openai_api_key := Some ''sk-test''\<rparr>) ''text-embedding-3-large'')) 0 =
     \<lparr>embeddings_model =
        Some \<lparr>provider_model = ''text-embedding-3-large'', provider_api_key = ''sk-test''\<rparr>,
      cache = Some Map.empty, initialized = Some True\<rparr>"
proof -
  have h1: "cls_instance nokey_state = None"
    and h2: "key_missing (openai_api_key nokey_state)"
    and n: "next_addr nokey_state = 0"
    by (simp_all add: nokey_state_def demo_state_def key_missing_def)
  have h4: "''sk-test'' \<noteq> []" by simp
  have h5: "new_provider demo_env ''text-embedding-3-large'' ''sk-test'' = None"
    by (simp add: demo_env_def)
  show ?thesis
    using construction_without_credential[OF h1 h2 refl h4 h5 refl,
        of "''text-embedding-3-small''"] n
    by simp
qed

text \<open>
  The claim as stated fails: after the construction without credential has raised, the
  class attribute is not \<^verbatim>\<open>None\<close>.
\<close>

theorem no_singleton_after_failure_counterexample:
  "fst (OpenAIEmbeddingsService demo_env nokey_state ''text-embedding-3-small'') =
     Inl (EnvironmentError ''OPENAI_API_KEY environment variable is not set!'') \<and>
   cls_instance (snd (OpenAIEmbeddingsService demo_env nokey_state ''text-embedding-3-small'')) \<noteq> None"
  by (simp add: OpenAIEmbeddingsService_def service_new_def service_init_def nokey_state_def
      demo_state_def key_missing_def bare_obj_def Let_def)

text \<open>
  Claim C3. Every evaluation of the constructor expression that returns, in any state
  (also when the instance exists and is initialized), leaves the cache of the returned
  instance empty.
\<close>

theorem constructor_resets_cache:
  assumes "fst (OpenAIEmbeddingsService E s model) = Inr a"
  shows "cache (heap (snd (OpenAIEmbeddingsService E s model)) a) = Some Map.empty"
proof -
  obtain r s1 where r: "OpenAIEmbeddingsService E s model = (r, s1)"
    by (cases "OpenAIEmbeddingsService E s model")
  with assms have "OpenAIEmbeddingsService E s model = (Inr a, s1)" by simp
  from constructor_ok_facts(3)[OF this] r show ?thesis by simp
qed

theorem constructor_resets_cache_witness:
  "cache (heap cached_state 0) = Some [''hello'' \<mapsto> PyList [5]] \<and>
   fst (OpenAIEmbeddingsService demo_env cached_state ''text-embedding-3-small'') = Inr 0 \<and>
   cache (heap (snd (OpenAIEmbeddingsService demo_env cached_state ''text-embedding-3-small'')) 0) =
     Some Map.empty"
proof -
  have h: "fst (OpenAIEmbeddingsService demo_env cached_state ''text-embedding-3-small'') = Inr 0"
    by (simp add: OpenAIEmbeddingsService_def service_new_def service_init_def
        cached_state_simps)
  show ?thesis
    using constructor_resets_cache[OF h] h by (simp add: cached_state_simps)
qed

text \<open>
  Claim C4. After a construction that has returned the instance \<open>a\<close>, and after any
  sequence of calls by a caller, the constructor returns \<open>a\<close> again, whatever model it is
  given, and the provider attribute of \<open>a\<close> is the one it had after the first
  construction; when that construction created the instance, the provider has the
  model of that first call.
\<close>

theorem singleton_identity_first_model_wins:
  assumes "fst (OpenAIEmbeddingsService E s model) = Inr a"
    and "s1 = snd (OpenAIEmbeddingsService E s model)"
    and "s2 = client_run E a s1 ops"
  shows "fst (OpenAIEmbeddingsService E s2 model') = Inr a \<and>
         embeddings_model (heap (snd (OpenAIEmbeddingsService E s2 model')) a) =
           embeddings_model (heap s1 a) \<and>
         (cls_instance s = None \<longrightarrow>
            (\<exists>key. openai_api_key s = Some key \<and>
               embeddings_model (heap s1 a) =
                 Some \<lparr>provider_model = model, provider_api_key = key\<rparr>))"
proof -
  from assms(1,2) have r: "OpenAIEmbeddingsService E s model = (Inr a, s1)"
    by (cases "OpenAIEmbeddingsService E s model") simp
  have "installed a (embeddings_model (heap s1 a)) s1"
    using constructor_ok_facts(1,2)[OF r] by (simp add: installed_def)
  then have i2: "installed a (embeddings_model (heap s1 a)) s2"
    unfolding assms(3) by (rule installed_run)
  have c: "OpenAIEmbeddingsService E s2 model' = (Inr a, reset_cache s2 a)"
    using i2 by (rule constructor_installed)
  have "installed a (embeddings_model (heap s1 a)) (reset_cache s2 a)"
    using i2 by (rule installed_reset)
  then have "embeddings_model (heap (reset_cache s2 a) a) = embeddings_model (heap s1 a)"
    by (simp add: installed_def)
  with c first_constructor_model[OF _ r] show ?thesis by simp
qed

theorem singleton_identity_first_model_wins_witness:
  "fst (OpenAIEmbeddingsService demo_env demo_state ''text-embedding-3-small'') = Inr 0 \<and>
   fst (OpenAIEmbeddingsService demo_env
      (client_run demo_env 0 ready_state [Call_compute_embedding ''hello''])
      ''text-embedding-3-large'') = Inr 0 \<and>
   embeddings_model (heap (snd (OpenAIEmbeddingsService demo_env
      (client_run demo_env 0 ready_state [Call_compute_embedding ''hello''])
      ''text-embedding-3-large'')) 0) =
     Some \<lparr>provider_model = ''text-embedding-3-small'', provider_api_key = ''sk-test''\<rparr>"
proof -
  have n: "cls_instance demo_state = None" "openai_api_key demo_state = Some ''sk-test''"
    by (simp_all add: demo_state_def)
  show ?thesis
    using singleton_identity_first_model_wins[OF ready_constructor ready_state_def refl,
        of "[Call_compute_embedding ''hello'']" "''text-embedding-3-large''"]
      ready_constructor n
    by simp
qed

text \<open>
  Claim C5. When \<open>text\<close> is a key of the cache, \<^verbatim>\<open>compute_embedding\<close> returns the
  stored vector and leaves the whole state as it is: no call of the tokenizer and none of
  the provider is made.
\<close>

theorem cache_hit_returns_stored_vector:
  assumes "cache (heap s self) = Some c" and "c text = Some v"
  shows "fst (compute_embedding E s self text) = Inr v \<and>
         snd (compute_embedding E s self text) = s \<and>
         calls (snd (compute_embedding E s self text)) = calls s"
  using compute_embedding_hit[OF assms] by simp

theorem cache_hit_returns_stored_vector_witness:
  "cache (heap cached_state 0) = Some [''hello'' \<mapsto> PyList [5]] \<and>
   fst (compute_embedding failing_env cached_state 0 ''hello'') = Inr (PyList [5]) \<and>
   snd (compute_embedding failing_env cached_state 0 ''hello'') = cached_state"
proof -
  have h1: "cache (heap cached_state 0) = Some [''hello'' \<mapsto> PyList [5]]"
    by (simp add: cached_state_simps)
  have h2: "[''hello'' \<mapsto> PyList [5]] ''hello'' = Some (PyList [5])" by simp
  show ?thesis
    using cache_hit_returns_stored_vector[OF h1 h2, of failing_env] h1 by simp
qed

text \<open>
  Claim C6. When the cache lookup misses and the provider call raises \<open>e\<close>,
  \<^verbatim>\<open>compute_embedding\<close> raises \<^verbatim>\<open>EmbeddingComputationError\<close> with cause \<open>e\<close>, and
  the heap, so the cache too, is unchanged.
\<close>

theorem provider_failure_is_wrapped:
  assumes "cache (heap s self) = Some c" and "c text = None"
    and "limit_token_length E text 2000 = (Inr text', tcalls)"
    and "embeddings_model (heap s self) = Some p"
    and "embed_query E (calls s @ tcalls) p text' = Inl e"
  shows "fst (compute_embedding E s self text) =
           Inl (EmbeddingComputationError (''Failed to compute embedding for text: '' @ text') e) \<and>
         heap (snd (compute_embedding E s self text)) = heap s \<and>
         cache (heap (snd (compute_embedding E s self text)) self) = Some c"
  using compute_embedding_miss_raise[OF assms] assms(1) by simp

theorem provider_failure_is_wrapped_witness:
  "fst (compute_embedding failing_env ready_state 0 ''hello'') =
     Inl (EmbeddingComputationError ''Failed to compute embedding for text: hello''
            (LibraryError ''connection refused'')) \<and>
   heap (snd (compute_embedding failing_env ready_state 0 ''hello'')) = heap ready_state \<and>
   cache (heap (snd (compute_embedding failing_env ready_state 0 ''hello'')) 0) = Some Map.empty"
proof -
  have h1: "cache (heap ready_state 0) = Some Map.empty"
    and h4: "embeddings_model (heap ready_state 0) = Some demo_provider"
    by (simp_all add: ready_state_simps)
  have h2: "(Map.empty :: string \<rightharpoonup> pyval) ''hello'' = None" by simp
  have h3: "limit_token_length failing_env ''hello'' 2000 = (Inr ''hello'', [Encode ''hello''])"
    by (rule failing_limit_short) simp
  have h5: "embed_query failing_env (calls ready_state @ [Encode ''hello'']) demo_provider ''hello'' =
      Inl (LibraryError ''connection refused'')"
    by (simp add: failing_env_def)
  show ?thesis
    using provider_failure_is_wrapped[OF h1 h2 h3 h4 h5] h1 by simp
qed

text \<open>
  Claim C7, as amended. For \<open>max_tokens \<ge> 0\<close> and a text that the tokenizer encodes,
  \<^verbatim>\<open>limit_token_length\<close> returns the text unchanged when it has at most
  \<open>max_tokens\<close> tokens, and otherwise the decoding of its first \<open>max_tokens\<close> tokens,
  which are exactly \<open>max_tokens\<close> many.
\<close>

theorem limit_token_length_nonneg:
  assumes "0 \<le> max_tokens" and "encode E text = Inr tokens"
  shows "fst (limit_token_length E text max_tokens) =
           Inr (if int (length tokens) \<le> max_tokens then text
                else decode E (take (nat max_tokens) tokens)) \<and>
         (max_tokens < int (length tokens) \<longrightarrow>
            int (length (take (nat max_tokens) tokens)) = max_tokens)"
  using assms by (simp add: limit_token_length_def slice_to_def Let_def)

theorem limit_token_length_nonneg_witness:
  "fst (limit_token_length demo_env ''abc'' 2) = Inr ''ab'' \<and>
   fst (limit_token_length demo_env ''abc'' 3) = Inr ''abc''"
proof -
  have h2: "(0::int) \<le> 2" and h3: "(0::int) \<le> 3" by simp_all
  show ?thesis
    using limit_token_length_nonneg[OF h2 demo_encode_abc]
      limit_token_length_nonneg[OF h3 demo_encode_abc] demo_decode_ab
    by simp
qed

text \<open>
  The claim as stated, for every \<open>max_tokens\<close>, fails at \<open>max_tokens = -1\<close>: the slice
  \<^verbatim>\<open>tokens[:-1]\<close> drops the last token, so for a text of three tokens the result is
  the decoding of two tokens, not of the first \<open>-1\<close> (none).
\<close>

theorem limit_token_length_negative_counterexample:
  "encode demo_env ''abc'' = Inr [97, 98, 99] \<and>
   \<not> int (length [97::nat, 98, 99]) \<le> - 1 \<and>
   fst (limit_token_length demo_env ''abc'' (- 1)) = Inr (decode demo_env [97, 98]) \<and>
   fst (limit_token_length demo_env ''abc'' (- 1)) \<noteq>
     Inr (decode demo_env (take (nat (- 1)) [97, 98, 99]))"
  by code_simp


text \<open>
  With a negative \<open>max_tokens\<close> both parts fail for the tokenizer with one token for each
  character, which decodes every list of tokens back to the text it came from: a text of
  three tokens is cut to two, which is more than \<open>-1\<close>, and a second application cuts
  it again.
\<close>

lemma limit_token_length_negative_maximum:
  "count_tokens demo_env ''abc'' = Inr 3 \<and> (- 1) < int 3 \<and>
   fst (limit_token_length demo_env ''abc'' (- 1)) = Inr ''ab'' \<and>
   count_tokens demo_env ''ab'' = Inr 2 \<and> \<not> int 2 \<le> - 1 \<and>
   fst (limit_token_length demo_env ''ab'' (- 1)) = Inr ''a'' \<and> ''a'' \<noteq> ''ab''"
  by code_simp

text \<open>
  Where the code does keep the bound: for \<open>max_tokens \<ge> 0\<close> and a tokenizer that encodes
  the decoding of the kept tokens back to these tokens.
\<close>

lemma limit_token_length_roundtrip_tokenizer:
  assumes "0 \<le> max_tokens" and "encode E text = Inr tokens"
    and "max_tokens < int (length tokens)"
    and "encode E (decode E (take (nat max_tokens) tokens)) = Inr (take (nat max_tokens) tokens)"
    and "limited = decode E (take (nat max_tokens) tokens)"
  shows "fst (limit_token_length E text max_tokens) = Inr limited \<and>
         (\<exists>n. count_tokens E limited = Inr n \<and> int n \<le> max_tokens) \<and>
         fst (limit_token_length E limited max_tokens) = Inr limited"
proof -
  have 1: "fst (limit_token_length E text max_tokens) = Inr limited"
    using assms(1,2,3,5) by (simp add: limit_token_length_def slice_to_def Let_def)
  have len: "int (length (take (nat max_tokens) tokens)) \<le> max_tokens"
    using assms(1) by simp
  have 2: "count_tokens E limited = Inr (length (take (nat max_tokens) tokens))"
    using assms(4,5) by (simp add: count_tokens_def)
  have 3: "fst (limit_token_length E limited max_tokens) = Inr limited"
    using assms(4,5) len by (simp add: limit_token_length_def del: length_take)
  show ?thesis using 1 2 3 len by blast
qed

text \<open>
  Claim C9. With a provider that returns one embedding for each text, a successful
  \<^verbatim>\<open>compute_batch_embeddings\<close> returns as many vectors as there are texts, the
  \<open>i\<close>-th being the array of the provider's \<open>i\<close>-th embedding for the texts as given;
  the only library call made is that one call of the provider (no tokenizer call), and the
  heap, so the cache too, is unchanged.
\<close>

theorem batch_embeddings_in_input_order:
  assumes "one_vector_per_text E"
    and "fst (compute_batch_embeddings E s self texts) = Inr vs"
    and "s' = snd (compute_batch_embeddings E s self texts)"
  shows "length vs = length texts \<and>
         (\<exists>p raw. embeddings_model (heap s self) = Some p \<and>
            embed_documents E (calls s) p texts = Inr raw \<and>
            (\<forall>i < length texts. vs ! i = np_array (raw ! i)) \<and>
            calls s' = calls s @ [EmbedDocuments p texts]) \<and>
         heap s' = heap s"
proof (cases "embeddings_model (heap s self)")
  case None
  with assms(2) show ?thesis by (simp add: compute_batch_embeddings_def)
next
  case (Some p)
  show ?thesis
  proof (cases "embed_documents E (calls s) p texts")
    case (Inl e)
    with Some assms(2) show ?thesis by (simp add: compute_batch_embeddings_def)
  next
    case (Inr raw)
    with assms(1) have len: "length raw = length texts"
      unfolding one_vector_per_text_def by blast
    from Some Inr assms(2) have vs: "vs = map np_array raw"
      by (simp add: compute_batch_embeddings_def)
    from Some Inr assms(3) have s': "s' = s\<lparr>calls := calls s @ [EmbedDocuments p texts]\<rparr>"
      by (simp add: compute_batch_embeddings_def)
    show ?thesis using Some Inr len vs s' by simp
  qed
qed

theorem batch_embeddings_in_input_order_witness:
  "fst (compute_batch_embeddings demo_env cached_state 0 [''a'', ''hello'', ''abc'']) =
     Inr [NdArray [1], NdArray [5], NdArray [3]] \<and>
   length [NdArray [1], NdArray [5], NdArray [3]] = length [''a'', ''hello'', ''abc''] \<and>
   heap (snd (compute_batch_embeddings demo_env cached_state 0 [''a'', ''hello'', ''abc''])) =
     heap cached_state \<and>
   calls (snd (compute_batch_embeddings demo_env cached_state 0 [''a'', ''hello'', ''abc''])) =
     calls cached_state @ [EmbedDocuments demo_provider [''a'', ''hello'', ''abc'']]"
proof -
  have h1: "one_vector_per_text demo_env"
    by (auto simp: one_vector_per_text_def demo_env_def)
  have h2: "fst (compute_batch_embeddings demo_env cached_state 0 [''a'', ''hello'', ''abc'']) =
     Inr [NdArray [1], NdArray [5], NdArray [3]]"
    by (simp add: compute_batch_embeddings_def cached_state_simps demo_env_def)
  have m: "embeddings_model (heap cached_state 0) = Some demo_provider"
    by (simp add: cached_state_simps)
  show ?thesis
    using batch_embeddings_in_input_order[OF h1 h2 refl] h2 m by auto
qed


text \<open>
  What holds on each path, for every tokenizer and provider: a miss that returns gives a
  plain list, whatever the provider answers; a hit gives the stored value. So with a
  provider that answers with plain lists, as langchain declares, every vector returned
  in a state a caller can reach is a plain list.
\<close>

lemma compute_embedding_miss_is_plain:
  assumes "cache (heap s self) = Some c" and "c text = None"
    and "fst (compute_embedding E s self text) = Inr v"
  shows "is_plain v"
  using assms
  by (auto simp: compute_embedding_def Let_def plain_tolist
      split: option.splits sum.splits prod.splits)

lemma compute_embedding_plain_with_list_provider:
  assumes "plain_provider E"
    and "fst (OpenAIEmbeddingsService E s model) = Inr a"
    and "s1 = snd (OpenAIEmbeddingsService E s model)"
    and "fst (compute_embedding E (client_run E a s1 ops) a text) = Inr v"
  shows "is_plain v"
proof -
  from assms(2,3) have r: "OpenAIEmbeddingsService E s model = (Inr a, s1)"
    by (cases "OpenAIEmbeddingsService E s model") simp
  have i: "installed a (embeddings_model (heap s1 a)) s1"
    using constructor_ok_facts(1,2)[OF r] by (simp add: installed_def)
  have "cache_plain a s1"
    using constructor_ok_facts(3)[OF r] by (simp add: cache_plain_def)
  with assms(1) i have "cache_plain a (client_run E a s1 ops)" by (rule plain_run)
  with assms(1) show ?thesis using assms(4) by (rule compute_embedding_plain)
qed

end
